theory Spec2Isabelle
  imports Main
begin

section \<open>Adapter registry, operation dispatcher and MeshSync ingestion\<close>

text \<open>
  A shallow embedding of \<^verbatim>\<open>server/handlers/mesh_ops_handlers.go\<close> (package
  \<^verbatim>\<open>handlers\<close>) and of the MeshSync resolver that follows it in the same source file
  (package \<^verbatim>\<open>resolver\<close>).

  Everything the handlers do beyond computing a value is written into a trace of
  events, in program order: the calls to the remote adapter, the port allocator, the
  availability prober, the adapter tracker, the TCP dial of the ping path, and what is
  written to the HTTP response. The collaborators whose code is not part of the source
  file (the gRPC client, the kube-config generator, the UUID generator, the storage
  handler, \<^verbatim>\<open>fmt\<close>) are fields of an environment record: a function from the arguments
  of the call to what the call returns. Logging (\<^verbatim>\<open>h.log.Debug\<close>, \<^verbatim>\<open>h.log.Error\<close>,
  \<^verbatim>\<open>logrus.Debug\<close>) changes nothing a caller observes and is left out.
\<close>

subsection \<open>Data model\<close>

text \<open>
  Go's \<^verbatim>\<open>error\<close> values. The three named errors are the package's own; an error
  handed back by a collaborator carries its description.
\<close>

datatype error =
    ErrValidAdapter
  | ErrMeshClient
  | ErrInvalidK8SConfig
  | External string

text \<open>
  \<^verbatim>\<open>models.Adapter\<close>. Its declaration is not in the source file; the fields are the ones
  the handlers read and write. \<^verbatim>\<open>Port\<close> is what \<^verbatim>\<open>models.GetNextAvailablePort()\<close> returns
  and what \<^verbatim>\<open>checkAdapterPingability\<close> prints with \<^verbatim>\<open>%d\<close>: an integer.
\<close>

record Adapter =
  Host :: string
  Name :: string
  Version :: string
  GitCommitSHA :: string
  Ops :: "string list"
  Port :: int
  Available :: bool

text \<open>The reply of the \<^verbatim>\<open>ComponentInfo\<close> RPC: \<^verbatim>\<open>Name\<close>, \<^verbatim>\<open>Version\<close>, \<^verbatim>\<open>GitSha\<close>.\<close>

datatype ComponentInfoResponse =
  ComponentInfoResponse (info_Name: string) (info_Version: string) (info_GitSha: string)

text \<open>\<^verbatim>\<open>meshes.ApplyRuleRequest\<close>, as \<^verbatim>\<open>MeshOpsHandler\<close> fills it.\<close>

record ApplyRuleRequest =
  OperationId :: string
  OpName :: string
  Username :: string
  Namespace :: string
  CustomBody :: string
  DeleteOp :: bool
  KubeConfigs :: "string list"

datatype ProviderType = LocalProviderType | RemoteProviderType

text \<open>
  The part of \<^verbatim>\<open>*http.Request\<close> the handlers read: \<^verbatim>\<open>req.FormValue(k)\<close>,
  \<^verbatim>\<open>req.URL.Query().Get(k)\<close> (both give the empty string for a missing key), and the
  value stored in the request context under \<^verbatim>\<open>models.KubeClustersKey\<close>, which is
  \<open>None\<close> when the type assertion to \<^verbatim>\<open>[]models.K8sContext\<close> fails.
\<close>

record 'c Request =
  FormValue :: "string \<Rightarrow> string"
  URLQuery :: "string \<Rightarrow> string"
  KubeClusters :: "'c list option"

text \<open>
  The observable effects, in the order the code performs them. \<open>Call_CreateClient\<close>
  records the call of \<^verbatim>\<open>meshes.CreateClient\<close>, whether or not it succeeds.
\<close>

datatype event =
    Call_CreateClient string
  | Call_SupportedOperations string
  | Call_ComponentInfo string
  | Call_ApplyOperation string ApplyRuleRequest
  | Call_Close string
  | Call_GetNextAvailablePort
  | Call_CheckAdapterAvailability Adapter
  | Call_AddAdapter Adapter
  | Call_Dial string
  | Viper_SetDefault string string
  | Http_Error error nat
  | Http_ErrorText string nat
  | Http_Write string

text \<open>
  The world the handlers run in: the trace so far and the state of the port allocator
  (\<^verbatim>\<open>models.GetNextAvailablePort\<close> is not in the source file, so its state is a type
  parameter and its step a field of the environment).
\<close>

record 'p world =
  trace :: "event list"
  ports :: 'p

record ('p, 'c) env =
  CreateClient :: "string \<Rightarrow> error option"
  SupportedOperations :: "string \<Rightarrow> error + string list"
  ComponentInfo :: "string \<Rightarrow> error + ComponentInfoResponse"
  ApplyOperation :: "string \<Rightarrow> ApplyRuleRequest \<Rightarrow> error option"
  GetNextAvailablePort :: "'p \<Rightarrow> int \<times> 'p"
  GenerateKubeConfig :: "'c \<Rightarrow> error + string"
  NewV4 :: "error + string"
  Dial :: "string \<Rightarrow> bool"
  GetProviderType :: ProviderType
  GetProviderToken :: "error + string"
  Sprintf_s :: "int \<Rightarrow> string"
  Sprintf_d :: "int \<Rightarrow> string"

definition StatusBadRequest :: nat where
  "StatusBadRequest = 400"

definition StatusInternalServerError :: nat where
  "StatusInternalServerError = 500"

definition emit :: "event \<Rightarrow> 'p world \<Rightarrow> 'p world" where
  "emit e w = w\<lparr>trace := trace w @ [e]\<rparr>"

text \<open>
  The events that reach the remote adapter: opening the RPC client, the three RPCs and
  closing the client.
\<close>

fun isRemoteCall :: "event \<Rightarrow> bool" where
  "isRemoteCall (Call_CreateClient h) = True"
| "isRemoteCall (Call_SupportedOperations h) = True"
| "isRemoteCall (Call_ComponentInfo h) = True"
| "isRemoteCall (Call_ApplyOperation h r) = True"
| "isRemoteCall (Call_Close h) = True"
| "isRemoteCall e = False"


text \<open>
  The events by which a registration takes hold: a port is allocated, the prober is
  started, the tracker is told.
\<close>

fun isRegistrationEffect :: "event \<Rightarrow> bool" where
  "isRegistrationEffect Call_GetNextAvailablePort = True"
| "isRegistrationEffect (Call_CheckAdapterAvailability a) = True"
| "isRegistrationEffect (Call_AddAdapter a) = True"
| "isRegistrationEffect e = False"

subsection \<open>Adapter registry: \<^verbatim>\<open>addAdapter\<close> and \<^verbatim>\<open>deleteAdapter\<close>\<close>

text \<open>
  The first loop of \<^verbatim>\<open>addAdapter\<close>:
  \<^verbatim>\<open>for _, adapter := range meshAdapters { if adapter.Host == meshLocationURL { alreadyConfigured = true; break } }\<close>
\<close>

fun alreadyConfigured :: "string \<Rightarrow> Adapter list \<Rightarrow> bool" where
  "alreadyConfigured meshLocationURL [] = False"
| "alreadyConfigured meshLocationURL (adapter # rest) =
     (if Host adapter = meshLocationURL then True
      else alreadyConfigured meshLocationURL rest)"

text \<open>
  \<^verbatim>\<open>addAdapter\<close> returns the adapter list and the error (\<open>None\<close> is \<^verbatim>\<open>nil\<close>). The
  deferred \<^verbatim>\<open>mClient.Close()\<close> runs on every return after the client was created, so
  it is the last event of those paths. When \<^verbatim>\<open>meshes.CreateClient\<close> fails the error
  returned is \<^verbatim>\<open>ErrMeshClient\<close>, not the one received.
\<close>

definition addAdapter ::
  "('p, 'c) env \<Rightarrow> Adapter list \<Rightarrow> string \<Rightarrow> 'p world \<Rightarrow> (Adapter list \<times> error option) \<times> 'p world"
where
  "addAdapter env meshAdapters meshLocationURL w =
     (if alreadyConfigured meshLocationURL meshAdapters then ((meshAdapters, None), w)
      else
        let w1 = emit (Call_CreateClient meshLocationURL) w in
        case CreateClient env meshLocationURL of
          Some err \<Rightarrow> ((meshAdapters, Some ErrMeshClient), w1)
        | None \<Rightarrow>
            let w2 = emit (Call_SupportedOperations meshLocationURL) w1 in
            (case SupportedOperations env meshLocationURL of
               Inl err \<Rightarrow> ((meshAdapters, Some err), emit (Call_Close meshLocationURL) w2)
             | Inr respOps \<Rightarrow>
                 let w3 = emit (Call_ComponentInfo meshLocationURL) w2 in
                 (case ComponentInfo env meshLocationURL of
                    Inl err \<Rightarrow> ((meshAdapters, Some err), emit (Call_Close meshLocationURL) w3)
                  | Inr meshInfo \<Rightarrow>
                      let (port, p') = GetNextAvailablePort env (ports w3);
                          w4 = (emit Call_GetNextAvailablePort w3)\<lparr>ports := p'\<rparr>;
                          adapter = \<lparr>Host = meshLocationURL,
                                     Name = info_Name meshInfo,
                                     Version = info_Version meshInfo,
                                     GitCommitSHA = info_GitSha meshInfo,
                                     Ops = respOps,
                                     Port = port,
                                     Available = True\<rparr>;
                          w5 = emit (Call_CheckAdapterAvailability adapter) w4;
                          w6 = emit (Call_AddAdapter adapter) w5
                      in ((meshAdapters @ [adapter], None),
                          emit (Call_Close meshLocationURL) w6))))"

text \<open>
  The loop of \<^verbatim>\<open>deleteAdapter\<close>, with the running index \<open>i\<close>:
  \<^verbatim>\<open>aID := -1; for i, ad := range meshAdapters { if adapterLoc == ad.Host { aID = i; break } }\<close>
\<close>

fun hostIndex :: "string \<Rightarrow> Adapter list \<Rightarrow> int \<Rightarrow> int" where
  "hostIndex adapterLoc [] i = -1"
| "hostIndex adapterLoc (ad # rest) i =
     (if adapterLoc = Host ad then i else hostIndex adapterLoc rest (i + 1))"

text \<open>
  \<^verbatim>\<open>deleteAdapter\<close>. The slice expressions \<^verbatim>\<open>s[1:]\<close>, \<^verbatim>\<open>s[:n]\<close> and
  \<^verbatim>\<open>append(s[:i], s[i+1:]...)\<close> are \<open>drop\<close>, \<open>take\<close> and \<open>@\<close> on the contents of the
  slice; all three indices are in range on the paths that use them. (In Go the
  \<^verbatim>\<open>append\<close> writes into the backing array of \<^verbatim>\<open>meshAdapters\<close>; the caller replaces
  \<^verbatim>\<open>prefObj.MeshAdapters\<close> by the returned slice, whose contents are what is modelled.)
\<close>

definition deleteAdapter ::
  "Adapter list \<Rightarrow> 'c Request \<Rightarrow> 'p world \<Rightarrow> (Adapter list \<times> error option) \<times> 'p world"
where
  "deleteAdapter meshAdapters req w =
     (let adapterLoc = URLQuery req ''adapter'';
          adaptersLen = int (length meshAdapters);
          aID = hostIndex adapterLoc meshAdapters 0
      in if aID < 0 then
           ((meshAdapters, Some ErrValidAdapter),
            emit (Http_Error ErrValidAdapter StatusBadRequest) w)
         else
           let newMeshAdapters =
                 (if aID = 0 then drop 1 meshAdapters
                  else if aID = adaptersLen - 1 then take (nat (adaptersLen - 1)) meshAdapters
                  else take (nat aID) meshAdapters @ drop (nat (aID + 1)) meshAdapters)
           in ((newMeshAdapters, None), w))"

subsection \<open>Ping path: \<^verbatim>\<open>AdapterPingHandler\<close>\<close>




subsection \<open>Operation dispatcher: \<^verbatim>\<open>MeshOpsHandler\<close>\<close>

text \<open>
  The lookup loop of \<^verbatim>\<open>MeshOpsHandler\<close> compares the form value with
  \<^verbatim>\<open>fmt.Sprintf("%s:%s", ad.Host, ad.Port)\<close>: the host, a colon, and what the \<^verbatim>\<open>%s\<close>
  verb prints for the port (a field of the environment).
\<close>

definition hostPort :: "('p, 'c) env \<Rightarrow> Adapter \<Rightarrow> string" where
  "hostPort env ad = Host ad @ '':'' @ Sprintf_s env (Port ad)"

fun hostPortIndex :: "('p, 'c) env \<Rightarrow> string \<Rightarrow> Adapter list \<Rightarrow> int \<Rightarrow> int" where
  "hostPortIndex env adapterLoc [] i = -1"
| "hostPortIndex env adapterLoc (ad # rest) i =
     (if adapterLoc = hostPort env ad then i
      else hostPortIndex env adapterLoc rest (i + 1))"

text \<open>
  The credential loop: \<^verbatim>\<open>for _, c := range mk8sContexts { kc, err := c.GenerateKubeConfig(); if err != nil { ...; return }; configs = append(configs, string(kc)) }\<close>.
  \<open>Inl\<close> is the early return with the error.
\<close>

fun generateConfigs :: "('p, 'c) env \<Rightarrow> 'c list \<Rightarrow> string list \<Rightarrow> error + string list" where
  "generateConfigs env [] configs = Inr configs"
| "generateConfigs env (c # rest) configs =
     (case GenerateKubeConfig env c of
        Inl err \<Rightarrow> Inl err
      | Inr kc \<Rightarrow> generateConfigs env rest (configs @ [kc]))"

text \<open>
  The first statement of the handler: with a remote provider whose token can be read,
  \<^verbatim>\<open>viper.SetDefault("opt-token", token)\<close>.
\<close>

definition setProviderToken :: "('p, 'c) env \<Rightarrow> 'p world \<Rightarrow> 'p world" where
  "setProviderToken env w =
     (if GetProviderType env = RemoteProviderType then
        (case GetProviderToken env of
           Inr token \<Rightarrow> emit (Viper_SetDefault ''opt-token'' token) w
         | Inl err \<Rightarrow> w)
      else w)"

text \<open>
  \<^verbatim>\<open>MeshOpsHandler\<close> returns nothing: what it does is in the world it leaves. \<open>UserID\<close>
  is \<^verbatim>\<open>user.UserID\<close>. The host dialled is \<^verbatim>\<open>meshAdapters[aID].Host\<close>; \<open>aID\<close> is an
  index of the list on that path (lemma \<open>hostPortIndex_found\<close> below). The deferred
  \<^verbatim>\<open>mClient.Close()\<close> runs after the response was written.
\<close>

definition MeshOpsHandler ::
  "('p, 'c) env \<Rightarrow> 'c Request \<Rightarrow> Adapter list \<Rightarrow> string \<Rightarrow> 'p world \<Rightarrow> 'p world"
where
  "MeshOpsHandler env req meshAdapters UserID w =
     (let w0 = setProviderToken env w;
          adapterLoc = FormValue req ''adapter'';
          aID = hostPortIndex env adapterLoc meshAdapters 0
      in if aID < 0 then emit (Http_Error ErrValidAdapter StatusBadRequest) w0
         else
           let opName = FormValue req ''query'';
               customBody = FormValue req ''customBody'';
               namespace0 = FormValue req ''namespace'';
               deleteOp = FormValue req ''deleteOp'';
               namespace = (if namespace0 = [] then ''default'' else namespace0)
           in case KubeClusters req of
                None \<Rightarrow> emit (Http_Error ErrInvalidK8SConfig StatusBadRequest) w0
              | Some mk8sContexts \<Rightarrow>
                  if length mk8sContexts = 0 then
                    emit (Http_Error ErrInvalidK8SConfig StatusBadRequest) w0
                  else
                    (case generateConfigs env mk8sContexts [] of
                       Inl err \<Rightarrow> emit (Http_Error err StatusInternalServerError) w0
                     | Inr configs \<Rightarrow>
                         (let host = Host (meshAdapters ! nat aID);
                              w1 = emit (Call_CreateClient host) w0
                          in (case CreateClient env host of
                                Some err \<Rightarrow> emit (Http_Error err StatusInternalServerError) w1
                              | None \<Rightarrow>
                                  (case NewV4 env of
                                     Inl err \<Rightarrow>
                                       emit (Call_Close host)
                                         (emit (Http_Error err StatusInternalServerError) w1)
                                   | Inr operationID \<Rightarrow>
                                       (let request = \<lparr>OperationId = operationID,
                                                       OpName = opName,
                                                       Username = UserID,
                                                       Namespace = namespace,
                                                       CustomBody = customBody,
                                                       DeleteOp = (deleteOp \<noteq> []),
                                                       KubeConfigs = configs\<rparr>;
                                            w2 = emit (Call_ApplyOperation host request) w1
                                        in (case ApplyOperation env host request of
                                              Some err \<Rightarrow>
                                                emit (Call_Close host)
                                                  (emit (Http_Error err StatusInternalServerError) w2)
                                            | None \<Rightarrow> emit (Call_Close host) w2)))))))"

subsection \<open>MeshSync ingestion: \<^verbatim>\<open>recordMeshSyncData\<close> and \<^verbatim>\<open>listernToEvents\<close>\<close>

text \<open>
  \<^verbatim>\<open>broker.Message\<close> wraps one payload, \<^verbatim>\<open>msg.Object\<close>, of type \<open>'o\<close>;
  \<^verbatim>\<open>meshsyncmodel.Object\<close>, the decoded record, is the type \<open>'r\<close>. The collaborators:
  \<^verbatim>\<open>utils.Marshal\<close> (its error is discarded by the code, so only the string counts),
  \<^verbatim>\<open>utils.Unmarshal\<close>, and \<^verbatim>\<open>handler.Create\<close> of the storage handler, whose state \<open>'d\<close>
  is opaque: \<open>Create\<close> gives \<^verbatim>\<open>result.Error\<close> and the handler's next state.
\<close>

datatype 'o Message = Message (Object: 'o)

record ('o, 'r, 'd) sync_env =
  Marshal :: "'o \<Rightarrow> string"
  Unmarshal :: "string \<Rightarrow> error + 'r"
  Create :: "'d \<Rightarrow> 'r \<Rightarrow> error option \<times> 'd"

text \<open>
  The state of the pipeline: the storage handler, and the log of the records whose
  \<^verbatim>\<open>Create\<close> returned no error, in call order (the persisted records).
\<close>

record ('r, 'd) store =
  handler :: 'd
  persisted :: "'r list"

definition recordMeshSyncData ::
  "('o, 'r, 'd) sync_env \<Rightarrow> ('r, 'd) store \<Rightarrow> 'r \<Rightarrow> error option \<times> ('r, 'd) store"
where
  "recordMeshSyncData env st object =
     (case Create env (handler st) object of
        (Some err, d) \<Rightarrow> (Some err, st\<lparr>handler := d\<rparr>)
      | (None, d) \<Rightarrow> (None, st\<lparr>handler := d, persisted := persisted st @ [object]\<rparr>))"

text \<open>
  \<^verbatim>\<open>listernToEvents\<close> is \<^verbatim>\<open>for { select { case msg := <-datach: ... } }\<close>: it has no
  \<^verbatim>\<open>return nil\<close>. The channel is what the broker delivers: the pointers sent so far
  (\<open>None\<close> is a \<^verbatim>\<open>nil\<close> pointer) and whether the channel was closed after them. The
  loop ends in one of three ways: it returns an error; it dereferences a \<^verbatim>\<open>nil\<close>
  message (one sent, or the zero value a closed channel yields) and panics; or it has
  consumed everything delivered and is blocked in the receive, still running.
\<close>

datatype outcome = Returned error | Panicked | Blocked

fun listernToEvents ::
  "('o, 'r, 'd) sync_env \<Rightarrow> ('r, 'd) store \<Rightarrow> 'o Message option list \<Rightarrow> bool \<Rightarrow> outcome \<times> ('r, 'd) store"
where
  "listernToEvents env st [] closed = (if closed then Panicked else Blocked, st)"
| "listernToEvents env st (None # rest) closed = (Panicked, st)"
| "listernToEvents env st (Some msg # rest) closed =
     (let objectJSON = Marshal env (Object msg) in
      case Unmarshal env objectJSON of
        Inl err \<Rightarrow> (Returned err, st)
      | Inr object \<Rightarrow>
          (case recordMeshSyncData env st object of
             (Some err, st') \<Rightarrow> (Returned err, st')
           | (None, st') \<Rightarrow> listernToEvents env st' rest closed))"

subsection \<open>Controller status: \<^verbatim>\<open>getMeshSyncStatus\<close>\<close>

text \<open>
  \<^verbatim>\<open>model.OperatorControllerStatus\<close> has pointer fields \<^verbatim>\<open>Name\<close>, \<^verbatim>\<open>Status\<close> and
  \<^verbatim>\<open>Error\<close>; \<^verbatim>\<open>model.Error\<close> has \<^verbatim>\<open>Code\<close> and \<^verbatim>\<open>Description\<close>.
\<close>

datatype Status = StatusUnknown | StatusOther string

datatype StatusError = StatusError (Code: string) (Description: string)

datatype OperatorControllerStatus =
  OperatorControllerStatus
    (status_Name: "string option")
    (status_Status: "Status option")
    (status_Error: "StatusError option")

text \<open>The fields of the resolver that the MeshSync functions read.\<close>

record ('o, 'd) Resolver =
  DBHandler :: 'd
  meshsyncChannel :: "'o Message option list"

text \<open>
  \<^verbatim>\<open>func (r *Resolver) getMeshSyncStatus(ctx context.Context) (*model.OperatorControllerStatus, error) { return nil, nil }\<close>
\<close>

definition getMeshSyncStatus ::
  "('o, 'd) Resolver \<Rightarrow> 'ctx \<Rightarrow> OperatorControllerStatus option \<times> error option" where
  "getMeshSyncStatus r ctx = (None, None)"

text \<open>
  The status event \<^verbatim>\<open>listenToMeshSyncEvents\<close> sends when \<^verbatim>\<open>listernToEvents\<close> returns
  \<open>err\<close>: name \<^verbatim>\<open>"meshsync"\<close>, status \<^verbatim>\<open>model.StatusUnknown\<close>, and the error with an
  empty code. \<open>describe\<close> is \<^verbatim>\<open>err.Error()\<close>.
\<close>

definition meshsyncName :: string where
  "meshsyncName = ''meshsync''"

definition failureStatus :: "(error \<Rightarrow> string) \<Rightarrow> error \<Rightarrow> OperatorControllerStatus" where
  "failureStatus describe err =
     OperatorControllerStatus (Some meshsyncName) (Some StatusUnknown)
       (Some (StatusError [] (describe err)))"

text \<open>
  The specification's reading of the point-in-time query, in its words: the result is a
  status whose value is "unknown" and that carries no error detail.
\<close>

definition spec_unknown_no_detail :: "OperatorControllerStatus option \<times> error option \<Rightarrow> bool" where
  "spec_unknown_no_detail res =
     (case fst res of
        None \<Rightarrow> False
      | Some s \<Rightarrow> status_Status s = Some StatusUnknown \<and> status_Error s = None)"

subsection \<open>Derived notions used in the statements\<close>

text \<open>
  The two lines of \<^verbatim>\<open>listernToEvents\<close> that decode a message:
  \<^verbatim>\<open>objectJSON, _ := utils.Marshal(msg.Object); err := utils.Unmarshal(string(objectJSON), &object)\<close>.
\<close>

definition decode :: "('o, 'r, 'd) sync_env \<Rightarrow> 'o Message \<Rightarrow> error + 'r" where
  "decode env msg = Unmarshal env (Marshal env (Object msg))"

text \<open>
  The storage handler, started in state \<open>d\<close>, takes the records \<open>objs\<close> one after the
  other without an error.
\<close>

fun accepts :: "('o, 'r, 'd) sync_env \<Rightarrow> 'd \<Rightarrow> 'r list \<Rightarrow> bool" where
  "accepts env d [] = True"
| "accepts env d (object # rest) =
     (case Create env d object of
        (Some err, d') \<Rightarrow> False
      | (None, d') \<Rightarrow> accepts env d' rest)"

text \<open>
  The state of the storage handler after \<^verbatim>\<open>Create\<close> was called once for each of the
  records \<open>objs\<close>, in that order, starting in state \<open>d\<close>.
\<close>

fun handlerAfter :: "('o, 'r, 'd) sync_env \<Rightarrow> 'd \<Rightarrow> 'r list \<Rightarrow> 'd" where
  "handlerAfter env d [] = d"
| "handlerAfter env d (object # rest) = handlerAfter env (snd (Create env d object)) rest"

subsection \<open>A concrete scenario\<close>

text \<open>
  The end-to-end scenario of the specification: an adapter at \<^verbatim>\<open>A:0\<close> that answers
  with version \<^verbatim>\<open>v1\<close> and the operation \<^verbatim>\<open>apply\<close>. Every other host is unreachable,
  the cluster context \<^verbatim>\<open>broken\<close> has no kube-config, ports are handed out from 10000
  upwards, and the provider is the local one. The only port the scenario prints is
  10000, and it is printed as Go prints an integer: \<^verbatim>\<open>10000\<close> under \<^verbatim>\<open>%d\<close> and
  \<^verbatim>\<open>%!s(int=10000)\<close> under \<^verbatim>\<open>%s\<close>.
\<close>

definition scenario_env :: "(nat, string) env" where
  "scenario_env =
     \<lparr>CreateClient = (\<lambda>h. if h = ''A:0'' then None else Some (External ''unreachable'')),
      SupportedOperations = (\<lambda>h. Inr [''apply'']),
      ComponentInfo = (\<lambda>h. Inr (ComponentInfoResponse ''adapter'' ''v1'' ''sha'')),
      ApplyOperation = (\<lambda>h r. None),
      GetNextAvailablePort = (\<lambda>p. (10000 + int p, Suc p)),
      GenerateKubeConfig =
        (\<lambda>c. if c = ''broken'' then Inl (External ''no kubeconfig'') else Inr (''config-'' @ c)),
      NewV4 = Inr ''op-1'',
      Dial = (\<lambda>a. True),
      GetProviderType = LocalProviderType,
      GetProviderToken = Inl (External ''no token''),
      Sprintf_s = (\<lambda>p. if p = 10000 then ''%!s(int=10000)'' else ''%!s(int=...)''),
      Sprintf_d = (\<lambda>p. if p = 10000 then ''10000'' else ''...'')\<rparr>"

definition scenario_world :: "nat world" where
  "scenario_world = \<lparr>trace = [], ports = 0\<rparr>"

definition adapterA :: Adapter where
  "adapterA = \<lparr>Host = ''A:0'', Name = ''adapter'', Version = ''v1'', GitCommitSHA = ''sha'',
               Ops = [''apply''], Port = 10000, Available = True\<rparr>"

definition adapterB :: Adapter where
  "adapterB = \<lparr>Host = ''B:0'', Name = ''adapter'', Version = ''v1'', GitCommitSHA = ''sha'',
               Ops = [''apply''], Port = 10001, Available = True\<rparr>"

definition adapterC :: Adapter where
  "adapterC = \<lparr>Host = ''C:0'', Name = ''adapter'', Version = ''v1'', GitCommitSHA = ''sha'',
               Ops = [''apply''], Port = 10002, Available = True\<rparr>"

text \<open>A request with the given form values, query values and cluster contexts.\<close>

definition request :: "(string \<times> string) list \<Rightarrow> (string \<times> string) list \<Rightarrow> 'c list option \<Rightarrow> 'c Request" where
  "request form query clusters =
     \<lparr>FormValue = (\<lambda>k. case map_of form k of None \<Rightarrow> [] | Some v \<Rightarrow> v),
      URLQuery = (\<lambda>k. case map_of query k of None \<Rightarrow> [] | Some v \<Rightarrow> v),
      KubeClusters = clusters\<rparr>"

text \<open>
  A list in which two entries have the host \<^verbatim>\<open>A:0\<close> needs a second adapter of that
  host; it differs from the first in version and port.
\<close>

definition adapterA2 :: Adapter where
  "adapterA2 = \<lparr>Host = ''A:0'', Name = ''adapter'', Version = ''v2'', GitCommitSHA = ''sha'',
                Ops = [''apply''], Port = 10003, Available = True\<rparr>"

text \<open>
  An ingestion scenario: payloads are strings, the payload \<^verbatim>\<open>malformed\<close> does not
  decode, and the state of the storage handler is the list of the records it holds;
  it refuses the record \<^verbatim>\<open>rejected\<close> and takes every other one.
\<close>

definition scenario_sync :: "(string, string, string list) sync_env" where
  "scenario_sync =
     \<lparr>Marshal = (\<lambda>object. object),
      Unmarshal = (\<lambda>s. if s = ''malformed'' then Inl (External ''decode'') else Inr s),
      Create = (\<lambda>d object. if object = ''rejected'' then (Some (External ''storage''), d)
                            else (None, d @ [object]))\<rparr>"

definition scenario_store :: "(string, string list) store" where
  "scenario_store = \<lparr>handler = [], persisted = []\<rparr>"

section \<open>Properties of the adapter registry\<close>

subsection \<open>The lookup loops\<close>

lemma alreadyConfigured_iff:
  "alreadyConfigured meshLocationURL meshAdapters \<longleftrightarrow> meshLocationURL \<in> Host ` set meshAdapters"
  by (induction meshAdapters) auto

lemma hostIndex_none:
  "\<forall>ad\<in>set meshAdapters. Host ad \<noteq> adapterLoc \<Longrightarrow> hostIndex adapterLoc meshAdapters i = -1"
  by (induction meshAdapters arbitrary: i) auto

text \<open>The loop stops at the first entry whose host is the one looked for.\<close>

lemma hostIndex_first:
  "i < length meshAdapters \<Longrightarrow> Host (meshAdapters ! i) = adapterLoc \<Longrightarrow>
   \<forall>j<i. Host (meshAdapters ! j) \<noteq> adapterLoc \<Longrightarrow>
   hostIndex adapterLoc meshAdapters k = k + int i"
proof (induction meshAdapters arbitrary: i k)
  case Nil
  then show ?case by simp
next
  case (Cons ad rest)
  show ?case
  proof (cases i)
    case 0
    with Cons.prems show ?thesis by simp
  next
    case (Suc n)
    with Cons.prems have "Host ad \<noteq> adapterLoc" by auto
    moreover from Suc Cons.prems have "hostIndex adapterLoc rest (k + 1) = k + 1 + int n"
      by (intro Cons.IH) auto
    ultimately show ?thesis using Suc by simp
  qed
qed

lemma first_match_exists:
  "\<exists>ad\<in>set meshAdapters. Host ad = adapterLoc \<Longrightarrow>
   \<exists>i<length meshAdapters. Host (meshAdapters ! i) = adapterLoc
      \<and> (\<forall>j<i. Host (meshAdapters ! j) \<noteq> adapterLoc)"
proof (induction meshAdapters)
  case Nil
  then show ?case by simp
next
  case (Cons ad rest)
  show ?case
  proof (cases "Host ad = adapterLoc")
    case True
    then show ?thesis by (intro exI [of _ 0]) simp
  next
    case False
    with Cons.prems have "\<exists>ad\<in>set rest. Host ad = adapterLoc" by auto
    from Cons.IH [OF this] obtain i where i: "i < length rest"
      "Host (rest ! i) = adapterLoc" "\<forall>j<i. Host (rest ! j) \<noteq> adapterLoc" by blast
    have "\<forall>j<Suc i. Host ((ad # rest) ! j) \<noteq> adapterLoc"
      using i(3) False by (auto simp: less_Suc_eq_0_disj)
    with i show ?thesis by (intro exI [of _ "Suc i"]) simp
  qed
qed

lemma trace_emit [simp]: "trace (emit e w) = trace w @ [e]"
  by (simp add: emit_def)

lemma ports_emit [simp]: "ports (emit e w) = ports w"
  by (simp add: emit_def)

subsection \<open>The registry invariant: at most one adapter per host\<close>

text \<open>
  \<^verbatim>\<open>addAdapter\<close> appends only a host that no entry has, and \<^verbatim>\<open>deleteAdapter\<close> only
  takes an entry out, so a list with pairwise different hosts stays one, whatever the
  remote side answers. In such a list the entry with a given host is the first one
  with that host.
\<close>

lemma count_host_distinct:
  "distinct (map Host meshAdapters) \<Longrightarrow> u \<in> Host ` set meshAdapters \<Longrightarrow>
   length (filter (\<lambda>a. Host a = u) meshAdapters) = 1"
proof (induction meshAdapters)
  case Nil
  then show ?case by simp
next
  case (Cons ad rest)
  show ?case
  proof (cases "Host ad = u")
    case True
    with Cons.prems have "u \<notin> Host ` set rest" by simp
    then have "\<forall>b\<in>set rest. Host b \<noteq> u" by blast
    then have "filter (\<lambda>a. Host a = u) rest = []" by (simp add: filter_empty_conv)
    with True show ?thesis by simp
  next
    case False
    with Cons show ?thesis by auto
  qed
qed

lemma distinct_first_match:
  assumes "distinct (map Host meshAdapters)" and "i < length meshAdapters"
    and "Host (meshAdapters ! i) = adapterLoc"
  shows "\<forall>j<i. Host (meshAdapters ! j) \<noteq> adapterLoc"
proof (intro allI impI)
  fix j assume "j < i"
  with assms(2) have "j < length (map Host meshAdapters)" "i < length (map Host meshAdapters)" "j \<noteq> i"
    by simp_all
  with assms(1) have "map Host meshAdapters ! j \<noteq> map Host meshAdapters ! i"
    by (metis nth_eq_iff_index_eq)
  with assms(2,3) \<open>j < i\<close> show "Host (meshAdapters ! j) \<noteq> adapterLoc" by simp
qed

lemma distinct_remove_nth:
  "distinct (map f xs) \<Longrightarrow> distinct (map f (take i xs @ drop (Suc i) xs))"
proof -
  assume d: "distinct (map f xs)"
  have "set (take i (map f xs)) \<inter> set (drop (Suc i) (map f xs)) = {}"
    using d by (intro set_take_disj_set_drop_if_distinct) simp_all
  with d show ?thesis
    by (simp add: take_map [symmetric] drop_map [symmetric])
qed

lemma addAdapter_distinct:
  "distinct (map Host meshAdapters) \<Longrightarrow>
   distinct (map Host (fst (fst (addAdapter env meshAdapters meshLocationURL w))))"
  by (auto simp: addAdapter_def alreadyConfigured_iff Let_def
           split: option.splits sum.splits prod.splits)

lemma deleteAdapter_first_match:
  assumes "i < length meshAdapters"
    and "Host (meshAdapters ! i) = URLQuery req ''adapter''"
    and "\<forall>j<i. Host (meshAdapters ! j) \<noteq> URLQuery req ''adapter''"
  shows "deleteAdapter meshAdapters req w =
           ((take i meshAdapters @ drop (Suc i) meshAdapters, None), w)"
proof -
  have idx: "hostIndex (URLQuery req ''adapter'') meshAdapters 0 = int i"
    using hostIndex_first [OF assms, of 0] by simp
  have "deleteAdapter meshAdapters req w =
          ((if i = 0 then drop 1 meshAdapters
            else if i = length meshAdapters - 1 then take (length meshAdapters - 1) meshAdapters
            else take i meshAdapters @ drop (i + 1) meshAdapters, None), w)"
    using assms(1) by (auto simp: deleteAdapter_def idx Let_def nat_add_distrib nat_diff_distrib)
  also have "\<dots> = ((take i meshAdapters @ drop (Suc i) meshAdapters, None), w)"
    using assms(1) by auto
  finally show ?thesis .
qed

lemma deleteAdapter_distinct:
  assumes "distinct (map Host meshAdapters)"
  shows "distinct (map Host (fst (fst (deleteAdapter meshAdapters req w))))"
proof (cases "\<exists>ad\<in>set meshAdapters. Host ad = URLQuery req ''adapter''")
  case True
  from first_match_exists [OF True] obtain i where "i < length meshAdapters"
    "Host (meshAdapters ! i) = URLQuery req ''adapter''"
    "\<forall>j<i. Host (meshAdapters ! j) \<noteq> URLQuery req ''adapter''" by blast
  from deleteAdapter_first_match [OF this, of w]
  have "fst (fst (deleteAdapter meshAdapters req w))
      = take i meshAdapters @ drop (Suc i) meshAdapters" by simp
  with distinct_remove_nth [OF assms, of i] show ?thesis by simp
next
  case False
  then have "hostIndex (URLQuery req ''adapter'') meshAdapters 0 = -1"
    by (intro hostIndex_none) auto
  with assms show ?thesis by (simp add: deleteAdapter_def)
qed

subsection \<open>Registering a host twice\<close>

text \<open>
  Claim C1. Registering a host that some entry of the adapter list already has is a
  no-op: \<^verbatim>\<open>addAdapter\<close> returns the list it was given and no error, and the world is
  the one it started in, so nothing was sent to the adapter (no client opened, no
  \<^verbatim>\<open>SupportedOperations\<close>, no \<^verbatim>\<open>ComponentInfo\<close>), no port was allocated and no prober
  started. In a registry that holds at most one adapter per host, the list returned
  has exactly one entry for that host.
\<close>

theorem addAdapter_duplicate_is_noop:
  assumes "meshLocationURL \<in> Host ` set meshAdapters"
  shows "addAdapter env meshAdapters meshLocationURL w = ((meshAdapters, None), w)
       \<and> filter isRemoteCall (trace (snd (addAdapter env meshAdapters meshLocationURL w)))
           = filter isRemoteCall (trace w)
       \<and> (distinct (map Host meshAdapters) \<longrightarrow>
            length (filter (\<lambda>a. Host a = meshLocationURL)
                      (fst (fst (addAdapter env meshAdapters meshLocationURL w)))) = 1)"
proof -
  from assms have eq: "addAdapter env meshAdapters meshLocationURL w = ((meshAdapters, None), w)"
    by (simp add: addAdapter_def alreadyConfigured_iff)
  show ?thesis
    unfolding eq using assms by (simp add: count_host_distinct)
qed

text \<open>
  The scenario: the first registration of \<^verbatim>\<open>A:0\<close> talks to the adapter and appends the
  entry; the second one changes neither the list nor the world.
\<close>

theorem addAdapter_duplicate_is_noop_witness:
  "addAdapter scenario_env [] ''A:0'' scenario_world
     = (([adapterA], None),
        \<lparr>trace = [Call_CreateClient ''A:0'', Call_SupportedOperations ''A:0'',
                   Call_ComponentInfo ''A:0'', Call_GetNextAvailablePort,
                   Call_CheckAdapterAvailability adapterA, Call_AddAdapter adapterA,
                   Call_Close ''A:0''],
         ports = 1\<rparr>)
   \<and> addAdapter scenario_env [adapterA] ''A:0''
         (snd (addAdapter scenario_env [] ''A:0'' scenario_world))
     = (([adapterA], None), snd (addAdapter scenario_env [] ''A:0'' scenario_world))
   \<and> length (filter (\<lambda>a. Host a = ''A:0'')
        (fst (fst (addAdapter scenario_env [adapterA] ''A:0''
                     (snd (addAdapter scenario_env [] ''A:0'' scenario_world)))))) = 1"
  using addAdapter_duplicate_is_noop [of "''A:0''" "[adapterA]" scenario_env
      "snd (addAdapter scenario_env [] ''A:0'' scenario_world)"]
  by (simp add: adapterA_def scenario_env_def scenario_world_def addAdapter_def emit_def Let_def)

subsection \<open>A registration that fails\<close>

text \<open>
  Claim C2. When the host is new and opening the RPC client fails, or the
  \<^verbatim>\<open>SupportedOperations\<close> RPC fails, or the \<^verbatim>\<open>ComponentInfo\<close> RPC fails, \<^verbatim>\<open>addAdapter\<close>
  returns an error and the list it was given: nothing was appended. The port
  allocator is in the state it was in, and the trace has no new port allocation, no
  new prober and no new tracker entry.
\<close>

theorem addAdapter_failure_keeps_list:
  assumes "meshLocationURL \<notin> Host ` set meshAdapters"
    and "CreateClient env meshLocationURL \<noteq> None
       \<or> isl (SupportedOperations env meshLocationURL)
       \<or> isl (ComponentInfo env meshLocationURL)"
  shows "fst (fst (addAdapter env meshAdapters meshLocationURL w)) = meshAdapters
       \<and> snd (fst (addAdapter env meshAdapters meshLocationURL w)) \<noteq> None
       \<and> ports (snd (addAdapter env meshAdapters meshLocationURL w)) = ports w
       \<and> filter isRegistrationEffect (trace (snd (addAdapter env meshAdapters meshLocationURL w)))
           = filter isRegistrationEffect (trace w)"
  using assms
  by (auto simp: addAdapter_def alreadyConfigured_iff Let_def split: option.splits sum.splits)

theorem addAdapter_failure_keeps_list_witness:
  "addAdapter scenario_env [adapterA] ''B:0'' scenario_world
     = (([adapterA], Some ErrMeshClient), emit (Call_CreateClient ''B:0'') scenario_world)
   \<and> addAdapter (scenario_env\<lparr>ComponentInfo := \<lambda>h. Inl (External ''no info'')\<rparr>)
         [adapterB] ''A:0'' scenario_world
     = (([adapterB], Some (External ''no info'')),
        \<lparr>trace = [Call_CreateClient ''A:0'', Call_SupportedOperations ''A:0'',
                   Call_ComponentInfo ''A:0'', Call_Close ''A:0''],
         ports = 0\<rparr>)"
  using addAdapter_failure_keeps_list [of "''B:0''" "[adapterA]" scenario_env scenario_world]
    addAdapter_failure_keeps_list [of "''A:0''" "[adapterB]"
      "scenario_env\<lparr>ComponentInfo := \<lambda>h. Inl (External ''no info'')\<rparr>" scenario_world]
  by (simp add: adapterA_def adapterB_def scenario_env_def scenario_world_def addAdapter_def
        emit_def)

subsection \<open>Removing a host that is not registered\<close>

text \<open>
  Claim C3. When no entry of the adapter list has the host asked for, \<^verbatim>\<open>deleteAdapter\<close>
  returns \<^verbatim>\<open>ErrValidAdapter\<close> (the specification's \<^verbatim>\<open>NotFound\<close>) together with the list
  it was given; the only effect is the 400 response.
\<close>

theorem deleteAdapter_unknown_host:
  assumes "\<forall>ad\<in>set meshAdapters. Host ad \<noteq> URLQuery req ''adapter''"
  shows "deleteAdapter meshAdapters req w =
           ((meshAdapters, Some ErrValidAdapter),
            emit (Http_Error ErrValidAdapter StatusBadRequest) w)"
  using hostIndex_none [OF assms, of 0] by (simp add: deleteAdapter_def)

theorem deleteAdapter_unknown_host_witness:
  "URLQuery (request [] [(''adapter'', ''C:0'')] (None :: string list option)) ''adapter''
     \<notin> Host ` set [adapterA, adapterB]
   \<and> fst (deleteAdapter [adapterA, adapterB]
             (request [] [(''adapter'', ''C:0'')] (None :: string list option)) scenario_world)
       = ([adapterA, adapterB], Some ErrValidAdapter)"
  using deleteAdapter_unknown_host [of "[adapterA, adapterB]"
      "request [] [(''adapter'', ''C:0'')] (None :: string list option)" scenario_world]
  by (simp add: adapterA_def adapterB_def request_def)

subsection \<open>Removing a registered host\<close>

text \<open>
  Claim C4, as the code has it. When the host asked for is the host of the entry at
  position \<open>i\<close> and of no entry before it, \<^verbatim>\<open>deleteAdapter\<close> succeeds and returns the
  list with exactly that entry taken out: the entries before \<open>i\<close> followed by the
  entries after \<open>i\<close>, in their order. The statement covers the three branches of the
  code: first, last and middle position. In a registry with at most one adapter per
  host every matching position is such a position (\<open>distinct_first_match\<close>).
\<close>

theorem deleteAdapter_position_stable:
  assumes "i < length meshAdapters"
    and "Host (meshAdapters ! i) = URLQuery req ''adapter''"
    and "\<forall>j<i. Host (meshAdapters ! j) \<noteq> URLQuery req ''adapter''"
  shows "deleteAdapter meshAdapters req w =
           ((take i meshAdapters @ drop (Suc i) meshAdapters, None), w)"
  using assms by (rule deleteAdapter_first_match)

theorem deleteAdapter_position_stable_witness:
  "fst (deleteAdapter [adapterA, adapterB, adapterC]
          (request [] [(''adapter'', ''A:0'')] (None :: string list option)) scenario_world)
     = ([adapterB, adapterC], None)
   \<and> fst (deleteAdapter [adapterA, adapterB, adapterC]
          (request [] [(''adapter'', ''B:0'')] (None :: string list option)) scenario_world)
     = ([adapterA, adapterC], None)
   \<and> fst (deleteAdapter [adapterA, adapterB, adapterC]
          (request [] [(''adapter'', ''C:0'')] (None :: string list option)) scenario_world)
     = ([adapterA, adapterB], None)"
  using deleteAdapter_position_stable [of 0 "[adapterA, adapterB, adapterC]"
      "request [] [(''adapter'', ''A:0'')] (None :: string list option)" scenario_world]
    deleteAdapter_position_stable [of 1 "[adapterA, adapterB, adapterC]"
      "request [] [(''adapter'', ''B:0'')] (None :: string list option)" scenario_world]
    deleteAdapter_position_stable [of 2 "[adapterA, adapterB, adapterC]"
      "request [] [(''adapter'', ''C:0'')] (None :: string list option)" scenario_world]
  by (simp add: adapterA_def adapterB_def adapterC_def request_def less_Suc_eq numeral_2_eq_2)

text \<open>
  Claim C4 as the specification words it, for every adapter list and every position
  whose entry has the host, does not hold. In the list of \<open>adapterA\<close>, \<open>adapterB\<close> and
  \<open>adapterA2\<close> the entry at position 2 has the host \<^verbatim>\<open>A:0\<close>, and so has the entry at
  position 0, where the loop stops: the entry taken out is the one at position 0, and
  the entry at position 2 stays.
\<close>

theorem deleteAdapter_duplicate_host_counterexample:
  "2 < length [adapterA, adapterB, adapterA2]
   \<and> Host ([adapterA, adapterB, adapterA2] ! 2)
       = URLQuery (request [] [(''adapter'', ''A:0'')] (None :: string list option)) ''adapter''
   \<and> deleteAdapter [adapterA, adapterB, adapterA2]
         (request [] [(''adapter'', ''A:0'')] (None :: string list option)) scenario_world
       = (([adapterB, adapterA2], None), scenario_world)
   \<and> deleteAdapter [adapterA, adapterB, adapterA2]
         (request [] [(''adapter'', ''A:0'')] (None :: string list option)) scenario_world
       \<noteq> ((take 2 [adapterA, adapterB, adapterA2] @ drop (Suc 2) [adapterA, adapterB, adapterA2],
            None), scenario_world)"
  by (simp add: deleteAdapter_def adapterA_def adapterB_def adapterA2_def request_def)

section \<open>Properties of the operation dispatcher\<close>

subsection \<open>The lookup by host and port\<close>


lemma hostPortIndex_found:
  "\<exists>ad\<in>set meshAdapters. hostPort env ad = adapterLoc \<Longrightarrow>
   \<exists>i<length meshAdapters. hostPortIndex env adapterLoc meshAdapters k = k + int i
      \<and> hostPort env (meshAdapters ! i) = adapterLoc
      \<and> (\<forall>j<i. hostPort env (meshAdapters ! j) \<noteq> adapterLoc)"
proof (induction meshAdapters arbitrary: k)
  case Nil
  then show ?case by simp
next
  case (Cons ad rest)
  show ?case
  proof (cases "adapterLoc = hostPort env ad")
    case True
    then show ?thesis by (intro exI [of _ 0]) simp
  next
    case False
    with Cons.prems have "\<exists>ad\<in>set rest. hostPort env ad = adapterLoc" by auto
    from Cons.IH [OF this, of "k + 1"] obtain i where i: "i < length rest"
      "hostPortIndex env adapterLoc rest (k + 1) = k + 1 + int i"
      "hostPort env (rest ! i) = adapterLoc"
      "\<forall>j<i. hostPort env (rest ! j) \<noteq> adapterLoc" by blast
    have "\<forall>j<Suc i. hostPort env ((ad # rest) ! j) \<noteq> adapterLoc"
      using i(4) False by (auto simp: less_Suc_eq_0_disj)
    with i False show ?thesis by (intro exI [of _ "Suc i"]) simp
  qed
qed


lemma remote_setProviderToken:
  "filter isRemoteCall (trace (setProviderToken env w)) = filter isRemoteCall (trace w)"
  by (simp add: setProviderToken_def split: sum.splits)

lemma trace_setProviderToken:
  "\<exists>evs. trace (setProviderToken env w) = trace w @ evs \<and> (\<forall>e\<in>set evs. \<exists>k v. e = Viper_SetDefault k v)"
  by (simp add: setProviderToken_def split: sum.splits)










subsection \<open>Credential assembly\<close>

lemma generateConfigs_first_error:
  "\<forall>c'\<in>set pre. \<not> isl (GenerateKubeConfig env c') \<Longrightarrow> GenerateKubeConfig env c = Inl err \<Longrightarrow>
   generateConfigs env (pre @ c # post) configs = Inl err"
  by (induction pre arbitrary: configs) (auto split: sum.splits)

lemma generateConfigs_Inr:
  "generateConfigs env cs configs = Inr out \<Longrightarrow>
   (\<forall>c\<in>set cs. \<not> isl (GenerateKubeConfig env c))
   \<and> map Inr (drop (length configs) out) = map (GenerateKubeConfig env) cs
   \<and> take (length configs) out = configs"
proof (induction cs arbitrary: configs)
  case Nil
  then show ?case by simp
next
  case (Cons c cs)
  then obtain kc where kc: "GenerateKubeConfig env c = Inr kc"
    and rest: "generateConfigs env cs (configs @ [kc]) = Inr out"
    by (auto split: sum.splits)
  from Cons.IH [OF rest] have ih: "\<forall>c\<in>set cs. \<not> isl (GenerateKubeConfig env c)"
    "map Inr (drop (Suc (length configs)) out) = map (GenerateKubeConfig env) cs"
    "take (Suc (length configs)) out = configs @ [kc]" by simp_all
  from ih(3) have len: "length configs < length out"
    by (metis length_append_singleton length_take lessI min_less_iff_conj)
  from ih(3) len have "take (length configs) out = configs" "out ! length configs = kc"
    by (simp_all add: take_Suc_conv_app_nth)
  with ih kc len show ?case
    by (simp add: Cons_nth_drop_Suc [symmetric])
qed

text \<open>
  Claim C6. For a dispatch whose adapter was resolved (an unresolved one has answered
  \<^verbatim>\<open>ErrValidAdapter\<close> before the cluster contexts are looked at): with no cluster
  contexts, absent or empty, the response is \<^verbatim>\<open>ErrInvalidK8SConfig\<close> (the
  specification's \<^verbatim>\<open>InvalidClusterConfig\<close>) and nothing else is done; when the
  kube-config of a context cannot be generated, the response is the error of the first
  such context and nothing else is done. And a dispatch whose trace has a new remote
  call had at least one context and generated the kube-config of every one of them.
\<close>

theorem dispatch_credentials_all_or_nothing:
  assumes "\<exists>ad\<in>set meshAdapters. hostPort env ad = FormValue req ''adapter''"
  shows "(KubeClusters req = None \<or> KubeClusters req = Some [] \<longrightarrow>
            MeshOpsHandler env req meshAdapters UserID w
              = emit (Http_Error ErrInvalidK8SConfig StatusBadRequest) (setProviderToken env w))
       \<and> (KubeClusters req = Some (pre @ c # post)
            \<and> (\<forall>c'\<in>set pre. \<not> isl (GenerateKubeConfig env c'))
            \<and> GenerateKubeConfig env c = Inl err \<longrightarrow>
            MeshOpsHandler env req meshAdapters UserID w
              = emit (Http_Error err StatusInternalServerError) (setProviderToken env w))
       \<and> (filter isRemoteCall (trace (MeshOpsHandler env req meshAdapters UserID w))
             \<noteq> filter isRemoteCall (trace w) \<longrightarrow>
            (\<exists>cs. KubeClusters req = Some cs \<and> cs \<noteq> []
               \<and> (\<forall>c'\<in>set cs. \<not> isl (GenerateKubeConfig env c'))))"
proof -
  from hostPortIndex_found [OF assms, of 0] obtain i where
    idx: "hostPortIndex env (FormValue req ''adapter'') meshAdapters 0 = int i" by auto
  have none: "KubeClusters req = None \<or> KubeClusters req = Some [] \<Longrightarrow>
      MeshOpsHandler env req meshAdapters UserID w
        = emit (Http_Error ErrInvalidK8SConfig StatusBadRequest) (setProviderToken env w)"
    by (auto simp: MeshOpsHandler_def idx Let_def)
  have first: "KubeClusters req = Some (pre @ c # post) \<Longrightarrow>
      \<forall>c'\<in>set pre. \<not> isl (GenerateKubeConfig env c') \<Longrightarrow> GenerateKubeConfig env c = Inl err \<Longrightarrow>
      MeshOpsHandler env req meshAdapters UserID w
        = emit (Http_Error err StatusInternalServerError) (setProviderToken env w)"
    by (simp add: MeshOpsHandler_def idx Let_def generateConfigs_first_error)
  have unless: "filter isRemoteCall (trace (MeshOpsHandler env req meshAdapters UserID w))
             \<noteq> filter isRemoteCall (trace w) \<Longrightarrow>
            \<exists>cs. KubeClusters req = Some cs \<and> cs \<noteq> []
               \<and> (\<forall>c'\<in>set cs. \<not> isl (GenerateKubeConfig env c'))"
    by (auto simp: MeshOpsHandler_def idx Let_def remote_setProviderToken
             split: option.splits sum.splits if_splits dest: generateConfigs_Inr)
  from none first unless show ?thesis by blast
qed

theorem dispatch_credentials_all_or_nothing_witness:
  "MeshOpsHandler scenario_env (request [(''adapter'', ''A:0:%!s(int=10000)'')] [] (Some []))
       [adapterA] ''user'' scenario_world
     = emit (Http_Error ErrInvalidK8SConfig StatusBadRequest) scenario_world
   \<and> MeshOpsHandler scenario_env
       (request [(''adapter'', ''A:0:%!s(int=10000)'')] [] (Some ([''c1''] @ ''broken'' # [''c3''])))
       [adapterA] ''user'' scenario_world
     = emit (Http_Error (External ''no kubeconfig'') StatusInternalServerError) scenario_world"
  using dispatch_credentials_all_or_nothing [where env = scenario_env
      and req = "request [(''adapter'', ''A:0:%!s(int=10000)'')] [] (Some [])"
      and meshAdapters = "[adapterA]" and UserID = "''user''" and w = scenario_world
      and pre = "[]" and c = "''c1''" and post = "[]" and err = "External ''no kubeconfig''"]
    dispatch_credentials_all_or_nothing [where env = scenario_env
      and req = "request [(''adapter'', ''A:0:%!s(int=10000)'')] [] (Some ([''c1''] @ ''broken'' # [''c3'']))"
      and meshAdapters = "[adapterA]" and UserID = "''user''" and w = scenario_world
      and pre = "[''c1'']" and c = "''broken''" and post = "[''c3'']"
      and err = "External ''no kubeconfig''"]
  by (simp add: adapterA_def request_def hostPort_def scenario_env_def setProviderToken_def
        scenario_world_def)

subsection \<open>The delete flag\<close>

text \<open>
  Claim C10. Every \<^verbatim>\<open>ApplyOperation\<close> request a dispatch sends carries
  \<^verbatim>\<open>DeleteOp = true\<close> exactly when the form value \<^verbatim>\<open>deleteOp\<close> is not the empty
  string. The scenario below sends \<^verbatim>\<open>deleteOp=false\<close>, and the flag is set.
\<close>

theorem dispatch_DeleteOp_flag:
  assumes "trace (MeshOpsHandler env req meshAdapters UserID w) = trace w @ evs"
    and "Call_ApplyOperation host rule \<in> set evs"
  shows "DeleteOp rule = (FormValue req ''deleteOp'' \<noteq> [])"
proof -
  obtain tok where tok: "trace (setProviderToken env w) = trace w @ tok"
    "\<forall>e\<in>set tok. \<exists>k v. e = Viper_SetDefault k v"
    using trace_setProviderToken by blast
  from assms tok show ?thesis
    by (auto simp: MeshOpsHandler_def Let_def split: option.splits sum.splits if_splits)
qed

theorem dispatch_DeleteOp_flag_witness:
  "trace (MeshOpsHandler scenario_env
            (request [(''adapter'', ''A:0:%!s(int=10000)''), (''query'', ''apply''), (''deleteOp'', ''false'')]
               [] (Some [''c1'']))
            [adapterA] ''user'' scenario_world)
     = trace scenario_world @
       [Call_CreateClient ''A:0'',
        Call_ApplyOperation ''A:0''
          \<lparr>OperationId = ''op-1'', OpName = ''apply'', Username = ''user'',
           Namespace = ''default'', CustomBody = [], DeleteOp = True,
           KubeConfigs = [''config-c1'']\<rparr>,
        Call_Close ''A:0'']
   \<and> DeleteOp \<lparr>OperationId = ''op-1'', OpName = ''apply'', Username = ''user'',
           Namespace = ''default'', CustomBody = [], DeleteOp = True,
           KubeConfigs = [''config-c1'']\<rparr>
     = (FormValue (request [(''adapter'', ''A:0:%!s(int=10000)''), (''query'', ''apply''), (''deleteOp'', ''false'')]
               [] (Some [''c1''])) ''deleteOp'' \<noteq> [])"
proof -
  let ?req = "request [(''adapter'', ''A:0:%!s(int=10000)''), (''query'', ''apply''), (''deleteOp'', ''false'')]
               [] (Some [''c1''])"
  let ?rule = "\<lparr>OperationId = ''op-1'', OpName = ''apply'', Username = ''user'',
           Namespace = ''default'', CustomBody = [], DeleteOp = True,
           KubeConfigs = [''config-c1'']\<rparr>"
  let ?evs = "[Call_CreateClient ''A:0'', Call_ApplyOperation ''A:0'' ?rule, Call_Close ''A:0'']"
  have run: "trace (MeshOpsHandler scenario_env ?req [adapterA] ''user'' scenario_world)
      = trace scenario_world @ ?evs"
    by (simp add: MeshOpsHandler_def adapterA_def request_def hostPort_def scenario_env_def
          setProviderToken_def scenario_world_def Let_def)
  have sent: "Call_ApplyOperation ''A:0'' ?rule \<in> set ?evs" by simp
  from dispatch_DeleteOp_flag [OF run sent] run show ?thesis by simp
qed

section \<open>Properties of the ingestion loop\<close>

text \<open>
  \<^verbatim>\<open>recordMeshSyncData\<close> hands the record to \<^verbatim>\<open>Create\<close> once and returns what \<^verbatim>\<open>Create\<close>
  answers.
\<close>

lemma recordMeshSyncData_ok:
  "Create env (handler st) object = (None, d) \<Longrightarrow>
   recordMeshSyncData env st object = (None, st\<lparr>handler := d, persisted := persisted st @ [object]\<rparr>)"
  by (simp add: recordMeshSyncData_def)

lemma recordMeshSyncData_error:
  "fst (Create env (handler st) object) = Some err \<Longrightarrow>
   recordMeshSyncData env st object
     = (Some err, st\<lparr>handler := snd (Create env (handler st) object)\<rparr>)"
  by (cases "Create env (handler st) object") (simp add: recordMeshSyncData_def)

text \<open>
  Once the loop has consumed a prefix of the channel and waits for more, it goes on
  from the store it has reached.
\<close>

lemma listernToEvents_append:
  "listernToEvents env st pre False = (Blocked, st') \<Longrightarrow>
   listernToEvents env st (pre @ rest) closed = listernToEvents env st' rest closed"
proof (induction env st pre "False" arbitrary: st' rule: listernToEvents.induct)
  case (1 env st)
  then show ?case by simp
next
  case (2 env st rest)
  then show ?case by simp
next
  case (3 env st msg rest')
  then show ?case
    by (auto simp: Let_def split: sum.splits prod.splits option.splits)
qed

text \<open>
  Messages that decode, with records the storage takes: the loop calls \<^verbatim>\<open>Create\<close> once
  per record, in order, and waits.
\<close>

lemma listernToEvents_wellformed:
  "map (decode env) msgs = map Inr objs \<Longrightarrow> accepts env (handler st) objs \<Longrightarrow>
   listernToEvents env st (map Some msgs) False
     = (Blocked, st\<lparr>handler := handlerAfter env (handler st) objs,
                     persisted := persisted st @ objs\<rparr>)"
proof (induction msgs arbitrary: st objs)
  case Nil
  then show ?case by simp
next
  case (Cons msg msgs)
  from Cons.prems(1) obtain object rest where objs: "objs = object # rest"
    and dec: "decode env msg = Inr object" and rest: "map (decode env) msgs = map Inr rest"
    by (cases objs) auto
  from Cons.prems(2) objs obtain d where d: "Create env (handler st) object = (None, d)"
    and acc: "accepts env d rest"
    by (auto split: prod.splits option.splits)
  let ?st = "st\<lparr>handler := d, persisted := persisted st @ [object]\<rparr>"
  have step: "listernToEvents env st (map Some (msg # msgs)) False
      = listernToEvents env ?st (map Some msgs) False"
    using dec recordMeshSyncData_ok [OF d] by (simp add: decode_def)
  from acc have "accepts env (handler ?st) rest" by simp
  from Cons.IH [OF rest this] show ?case
    unfolding step objs using d by simp
qed

text \<open>
  Claim C8. When every message of a sequence decodes (\<open>objs\<close> are the decoded
  records) and the storage handler takes these records, the loop persists exactly
  these records, one per message and in the order of arrival, after what was
  persisted before: the storage handler is in the state that one \<^verbatim>\<open>Create\<close> per
  record, in that order, leaves it in. The loop has not returned, and waits for the
  next message.
\<close>

theorem ingestion_in_arrival_order:
  assumes "map (decode env) msgs = map Inr objs"
    and "accepts env (handler st) objs"
  shows "fst (listernToEvents env st (map Some msgs) False) = Blocked
       \<and> persisted (snd (listernToEvents env st (map Some msgs) False)) = persisted st @ objs
       \<and> handler (snd (listernToEvents env st (map Some msgs) False))
           = handlerAfter env (handler st) objs
       \<and> length objs = length msgs"
proof -
  from assms(1) have "length objs = length msgs"
    by (metis length_map)
  with listernToEvents_wellformed [OF assms] show ?thesis by simp
qed

theorem ingestion_in_arrival_order_witness:
  "listernToEvents scenario_sync scenario_store
      (map Some [Message ''m1'', Message ''m2'', Message ''m3'']) False
     = (Blocked, \<lparr>handler = [''m1'', ''m2'', ''m3''], persisted = [''m1'', ''m2'', ''m3'']\<rparr>)
   \<and> handlerAfter scenario_sync (handler scenario_store) [''m1'', ''m2'', ''m3'']
     = [''m1'', ''m2'', ''m3'']"
  using ingestion_in_arrival_order [of scenario_sync
      "[Message ''m1'', Message ''m2'', Message ''m3'']" "[''m1'', ''m2'', ''m3'']" scenario_store]
  by (simp add: scenario_sync_def scenario_store_def decode_def recordMeshSyncData_def Let_def)

text \<open>
  Claim C7. Let the messages \<open>pre\<close> be ingested without failure (they decode to
  \<open>objs\<close>, which the storage takes), and let the next message \<open>msg\<close> fail: its payload
  does not decode, or it decodes and \<^verbatim>\<open>Create\<close>, in the state the storage is in after
  \<open>objs\<close>, answers an error. Then the loop returns that error. The persisted records
  are those of \<open>pre\<close>, whatever follows on the channel (\<open>post\<close>) and whether or not the
  channel is closed: nothing after \<open>msg\<close> is processed. The storage is in the state
  after \<open>objs\<close> when the payload did not decode, and in the state one more \<^verbatim>\<open>Create\<close>
  leaves it in when the storage refused the record: nothing is tried again.
\<close>

theorem ingestion_first_failure_is_fatal:
  assumes "map (decode env) pre = map Inr objs"
    and "accepts env (handler st) objs"
    and "decode env msg = Inl err
       \<or> (\<exists>object. decode env msg = Inr object
            \<and> fst (Create env (handlerAfter env (handler st) objs) object) = Some err)"
  shows "fst (listernToEvents env st (map Some pre @ Some msg # post) closed) = Returned err
       \<and> persisted (snd (listernToEvents env st (map Some pre @ Some msg # post) closed))
           = persisted st @ objs
       \<and> handler (snd (listernToEvents env st (map Some pre @ Some msg # post) closed))
           = (case decode env msg of
                Inl e \<Rightarrow> handlerAfter env (handler st) objs
              | Inr object \<Rightarrow> snd (Create env (handlerAfter env (handler st) objs) object))"
proof -
  let ?st = "st\<lparr>handler := handlerAfter env (handler st) objs,
                 persisted := persisted st @ objs\<rparr>"
  have blocked: "listernToEvents env st (map Some pre) False = (Blocked, ?st)"
    using assms(1,2) by (rule listernToEvents_wellformed)
  have cont: "listernToEvents env st (map Some pre @ Some msg # post) closed
      = listernToEvents env ?st (Some msg # post) closed"
    using blocked by (rule listernToEvents_append)
  from assms(3) show ?thesis
  proof
    assume "decode env msg = Inl err"
    then show ?thesis unfolding cont by (simp add: decode_def)
  next
    assume "\<exists>object. decode env msg = Inr object
            \<and> fst (Create env (handlerAfter env (handler st) objs) object) = Some err"
    then obtain object where dec: "decode env msg = Inr object"
      and refused: "fst (Create env (handler ?st) object) = Some err" by auto
    from recordMeshSyncData_error [OF refused] dec show ?thesis
      unfolding cont by (simp add: decode_def)
  qed
qed

theorem ingestion_first_failure_is_fatal_witness:
  "listernToEvents scenario_sync scenario_store
      (map Some [Message ''m1'', Message ''m2'']
         @ Some (Message ''malformed'') # [Some (Message ''m4'')]) False
     = (Returned (External ''decode''),
        \<lparr>handler = [''m1'', ''m2''], persisted = [''m1'', ''m2'']\<rparr>)
   \<and> listernToEvents scenario_sync scenario_store
      (map Some [Message ''m1'', Message ''m2'']
         @ Some (Message ''rejected'') # [Some (Message ''m4'')]) False
     = (Returned (External ''storage''),
        \<lparr>handler = [''m1'', ''m2''], persisted = [''m1'', ''m2'']\<rparr>)"
  using ingestion_first_failure_is_fatal [of scenario_sync
      "[Message ''m1'', Message ''m2'']" "[''m1'', ''m2'']" scenario_store
      "Message ''malformed''" "External ''decode''" "[Some (Message ''m4'')]" False]
    ingestion_first_failure_is_fatal [of scenario_sync
      "[Message ''m1'', Message ''m2'']" "[''m1'', ''m2'']" scenario_store
      "Message ''rejected''" "External ''storage''" "[Some (Message ''m4'')]" False]
  by (simp add: scenario_sync_def scenario_store_def decode_def recordMeshSyncData_def Let_def)

section \<open>The point-in-time status query\<close>

text \<open>
  Claim C9, as the code has it. \<^verbatim>\<open>getMeshSyncStatus\<close> returns \<^verbatim>\<open>nil, nil\<close> whatever the
  resolver and the context are: no status object and no error. It computes nothing
  and reads no pipeline state.
\<close>

theorem getMeshSyncStatus_is_nil:
  "getMeshSyncStatus r ctx = (None, None) \<and> getMeshSyncStatus r ctx = getMeshSyncStatus r' ctx'"
  by (simp add: getMeshSyncStatus_def)

text \<open>
  Claim C9 as the specification words it does not hold: the result is not a status
  whose value is \<^verbatim>\<open>StatusUnknown\<close>, since there is no status object at all. (The
  streaming path, \<open>failureStatus\<close>, is where \<^verbatim>\<open>StatusUnknown\<close> is reported.)
\<close>

theorem getMeshSyncStatus_not_unknown:
  "\<not> spec_unknown_no_detail
       (getMeshSyncStatus \<lparr>DBHandler = (0::nat), meshsyncChannel = [Some (Message ''m1'')]\<rparr> ())"
  by (simp add: getMeshSyncStatus_def spec_unknown_no_detail_def)

end
